theory Spec2Isabelle
  imports
    Complex_Main
    "HOL-Library.Char_ord"
    "HOL-Library.List_Lexorder"
    "HOL-Library.Product_Lexorder"
begin

section \<open>Null-hypothesis distributions of \<open>mvpa/clfs/stats.py\<close>\<close>

text \<open>
  The module estimates the distribution of a measure under the null hypothesis and
  translates observed values into p-values.  Conventions of the embedding:
  \<^item> a Python float is a \<^typ>\<open>real\<close>; the IEEE special values (nan, inf) and rounding
    are outside the model;
  \<^item> a numpy array handed to or returned by a cdf is the list of its elements in
    iteration order (\<open>N.ravel\<close> order); the shape of a higher-dimensional array is
    not kept;
  \<^item> an exception is a value \<open>Inl e\<close> of the result type \<open>error + 'a\<close>;
  \<^item> Python names that start with underscores lose them (\<open>_pvalue\<close> is
    \<open>pvalue\<close>, \<open>self._dist\<close> is \<open>u_dist\<close>, \<open>self.__permutations\<close> is
    \<open>permutations\<close>).
\<close>

subsection \<open>Values and errors\<close>

datatype error =
    ValueError
  | RuntimeError
  | NotImplementedError
  | IndexError
  | TypeError
  | UnboundLocalError
  | LibraryError string

text \<open>An argument \<open>x\<close> of the public interface: \<open>N.isscalar(x)\<close> holds for a
  \<open>Scalar\<close> only.\<close>

datatype arg = Scalar real | Array "real list"

fun isscalar :: "arg \<Rightarrow> bool" where
  "isscalar (Scalar v) = True"
| "isscalar (Array vs) = False"

text \<open>The elements of an argument as a flat sequence; a scalar counts as one element
  (\<open>if is_scalar: x = [x]\<close>).\<close>

fun elements :: "arg \<Rightarrow> real list" where
  "elements (Scalar v) = [v]"
| "elements (Array vs) = vs"

subsection \<open>\<open>Nonparametric\<close>\<close>

datatype Nonparametric = Nonparametric (u_dist_samples: "real list")

text \<open>\<open>__init__\<close>: \<open>self._dist_samples = N.ravel(dist_samples)\<close>.\<close>

definition Nonparametric_init :: "real list \<Rightarrow> Nonparametric" where
  "Nonparametric_init dist_samples = Nonparametric dist_samples"

text \<open>\<open>fit\<close> is a static method returning the argument list of the constructor:
  \<open>return [dist_samples]\<close>.\<close>

definition Nonparametric_fit :: "real list \<Rightarrow> error + real list list" where
  "Nonparametric_fit dist_samples = Inr [dist_samples]"

text \<open>\<open>.mean()\<close> of a boolean array: the sum of its entries (True is 1) over its
  size.  On an empty array numpy yields nan, which the model does not have; every
  statement about the mean is about a non-empty array.\<close>

definition mean :: "bool list \<Rightarrow> real" where
  "mean bs = sum_list (map (\<lambda>b. if b then 1 else 0) bs) / real (length bs)"

text \<open>The function that \<open>cdf\<close> vectorizes: \<open>lambda v: (self._dist_samples <= v).mean()\<close>.\<close>

definition cdf_at :: "Nonparametric \<Rightarrow> real \<Rightarrow> real" where
  "cdf_at self v = mean (map (\<lambda>s. s \<le> v) (u_dist_samples self))"

text \<open>\<open>N.vectorize(f)(x)\<close> applies \<open>f\<close> to a scalar, or to each element of an
  array; numpy refuses an input of size 0 with a ValueError.\<close>

fun vectorize :: "(real \<Rightarrow> real) \<Rightarrow> arg \<Rightarrow> error + arg" where
  "vectorize f (Scalar v) = Inr (Scalar (f v))"
| "vectorize f (Array vs) = (if vs = [] then Inl ValueError else Inr (Array (map f vs)))"

definition Nonparametric_cdf :: "Nonparametric \<Rightarrow> arg \<Rightarrow> error + arg" where
  "Nonparametric_cdf self x = vectorize (cdf_at self) x"

text \<open>The same method seen as a cdf function from arrays to arrays, the way
  \<open>_pvalue\<close> calls it.\<close>

definition Nonparametric_cdf_array :: "Nonparametric \<Rightarrow> real list \<Rightarrow> error + real list" where
  "Nonparametric_cdf_array self xs =
     (case Nonparametric_cdf self (Array xs) of
        Inl e \<Rightarrow> Inl e
      | Inr r \<Rightarrow> Inr (elements r))"

text \<open>The glossary's reading of a cdf on stored samples: the number of samples that are
  less than or equal to \<open>x\<close>, over the number of samples.\<close>

definition spec_empirical_cdf :: "real list \<Rightarrow> real \<Rightarrow> real" where
  "spec_empirical_cdf s x = real (length (filter (\<lambda>a. a \<le> x) s)) / real (length s)"

subsection \<open>\<open>_pvalue\<close>\<close>

text \<open>The tail adjustment of one cdf value; numpy applies it to every entry of the
  array.  \<open>'left'\<close> keeps the value, \<open>'right'\<close> is \<open>1 - cdf\<close>, \<open>'any'\<close>
  replaces the entries selected by \<open>cdf >= 0.5\<close> by their complement; any other
  string falls through the \<open>if/elif\<close> chain and keeps the value.\<close>

definition tail_value :: "string \<Rightarrow> real \<Rightarrow> real" where
  "tail_value tail c =
     (if tail = ''left'' then c
      else if tail = ''right'' then 1 - c
      else if tail = ''any'' then (if c \<ge> 1 / 2 then 1 - c else c)
      else c)"

definition apply_tail :: "string \<Rightarrow> real list \<Rightarrow> real list" where
  "apply_tail tail cdf = map (tail_value tail) cdf"

text \<open>\<open>cdf_func\<close> receives a sequence (the list \<open>[x]\<close> for a scalar) and returns an
  array, or raises.  \<open>cdf[0]\<close> on an empty array is an IndexError.\<close>

definition pvalue :: "arg \<Rightarrow> (real list \<Rightarrow> error + real list) \<Rightarrow> string \<Rightarrow> error + arg" where
  "pvalue x cdf_func tail =
     (let is_scalar = isscalar x in
      case cdf_func (elements x) of
        Inl e \<Rightarrow> Inl e
      | Inr cdf0 \<Rightarrow>
          (let cdf = apply_tail tail cdf0 in
           if is_scalar then
             (case cdf of [] \<Rightarrow> Inl IndexError | c # _ \<Rightarrow> Inr (Scalar c))
           else Inr (Array cdf)))"

subsection \<open>\<open>NullDist\<close>\<close>

record NullDist =
  tail :: string

definition NullDist_init :: "string \<Rightarrow> error + NullDist" where
  "NullDist_init t =
     (if t \<notin> set [''left'', ''right'', ''any''] then Inl ValueError
      else Inr \<lparr>tail = t\<rparr>)"

text \<open>The base class leaves \<open>cdf\<close> to its subclasses.\<close>

definition NullDist_cdf :: "NullDist \<Rightarrow> real list \<Rightarrow> error + real list" where
  "NullDist_cdf self x = Inl NotImplementedError"

text \<open>\<open>p\<close> is inherited by every subclass: \<open>_pvalue(x, self.cdf, self._tail)\<close>,
  with the method \<open>self.cdf\<close> of the subclass passed in.\<close>

definition NullDist_p ::
  "'a NullDist_scheme \<Rightarrow> (real list \<Rightarrow> error + real list) \<Rightarrow> arg \<Rightarrow> error + arg" where
  "NullDist_p self self_cdf x = pvalue x self_cdf (tail self)"

subsection \<open>\<open>FixedNullDist\<close>\<close>

record FixedNullDist = NullDist +
  f_dist :: "real list \<Rightarrow> error + real list"

definition FixedNullDist_init ::
  "(real list \<Rightarrow> error + real list) \<Rightarrow> string \<Rightarrow> error + FixedNullDist" where
  "FixedNullDist_init d t =
     (case NullDist_init t of
        Inl e \<Rightarrow> Inl e
      | Inr base \<Rightarrow> Inr \<lparr>tail = tail base, f_dist = d\<rparr>)"

definition FixedNullDist_cdf :: "FixedNullDist \<Rightarrow> real list \<Rightarrow> error + real list" where
  "FixedNullDist_cdf self x = f_dist self x"

definition FixedNullDist_p :: "FixedNullDist \<Rightarrow> arg \<Rightarrow> error + arg" where
  "FixedNullDist_p self x = NullDist_p self (FixedNullDist_cdf self) x"

subsection \<open>The distribution class handed to \<open>MCNullDist\<close>\<close>

text \<open>\<open>dist_class\<close> is any class with a \<open>fit\<close> that estimates constructor
  arguments from samples, a constructor, and a \<open>cdf\<close>.  \<open>dc_fit\<close> is
  \<open>dist_class.fit(samples)\<close>, \<open>dc_new\<close> is \<open>dist_class(*params)\<close>, and
  \<open>dc_cdf d v\<close> is \<open>d.cdf(v)\<close> at a scalar \<open>v\<close>, taken to return a number.\<close>

record ('p, 'd) dist_class =
  dc_fit :: "real list \<Rightarrow> error + 'p"
  dc_new :: "'p \<Rightarrow> error + 'd"
  dc_cdf :: "'d \<Rightarrow> real \<Rightarrow> real"

text \<open>The default, \<open>dist_class=Nonparametric\<close>.  Calling the constructor with any
  number of arguments other than one is a TypeError.\<close>

definition Nonparametric_new :: "real list list \<Rightarrow> error + Nonparametric" where
  "Nonparametric_new params =
     (case params of
        [s] \<Rightarrow> Inr (Nonparametric_init s)
      | _ \<Rightarrow> Inl TypeError)"

definition Nonparametric_class :: "(real list list, Nonparametric) dist_class" where
  "Nonparametric_class =
     \<lparr>dc_fit = Nonparametric_fit, dc_new = Nonparametric_new, dc_cdf = cdf_at\<rparr>"

subsection \<open>The working dataset\<close>

text \<open>Modelled from the spec: \<open>Dataset.permuteLabels\<close> is not among the sources at
  hand.  The sampler "repeatedly perturbs input labels", and \<open>fit\<close> ends with a call
  commented "restore original labels".  So a dataset carries its labels and, while it is
  permuted, the original labels; \<open>permuteLabels(True)\<close> keeps the originals (once)
  and replaces the labels by a random rearrangement of them, \<open>permuteLabels(False)\<close>
  puts the originals back and fails when there is nothing to restore.  The random draw
  of the call is the argument \<open>draw\<close>.\<close>

record 'l Dataset =
  labels :: "'l list"
  origlabels :: "'l list option"

definition permuteLabels ::
  "bool \<Rightarrow> ('l list \<Rightarrow> 'l list) \<Rightarrow> 'l Dataset \<Rightarrow> error + 'l Dataset" where
  "permuteLabels status draw ds =
     (if \<not> status then
        (case origlabels ds of
           None \<Rightarrow> Inl RuntimeError
         | Some orig \<Rightarrow> Inr (ds\<lparr>labels := orig, origlabels := None\<rparr>))
      else
        (let orig = (case origlabels ds of None \<Rightarrow> labels ds | Some l \<Rightarrow> l)
         in Inr (ds\<lparr>labels := draw orig, origlabels := Some orig\<rparr>)))"

subsection \<open>Arrays of recorded measurements\<close>

text \<open>\<open>N.asarray\<close> of the list of measurements: a list of scalars is a 1-d array
  (also the empty list), a list of arrays of one common size \<open>k\<close> is an array with one
  row per measurement; numpy refuses a mixed or ragged list with a ValueError.\<close>

datatype ndarray = Vec "real list" | Mat "real list list"

fun scalars :: "arg list \<Rightarrow> real list option" where
  "scalars [] = Some []"
| "scalars (Scalar v # ms) = map_option ((#) v) (scalars ms)"
| "scalars (Array vs # ms) = None"

fun all_rows :: "nat \<Rightarrow> arg list \<Rightarrow> real list list option" where
  "all_rows k [] = Some []"
| "all_rows k (Scalar v # ms) = None"
| "all_rows k (Array vs # ms) =
     (if length vs = k then map_option ((#) vs) (all_rows k ms) else None)"

definition asarray :: "arg list \<Rightarrow> error + ndarray" where
  "asarray ms =
     (case scalars ms of
        Some vs \<Rightarrow> Inr (Vec vs)
      | None \<Rightarrow>
          (case ms of
             Array r # _ \<Rightarrow>
               (case all_rows (length r) ms of
                  Some rows \<Rightarrow> Inr (Mat rows)
                | None \<Rightarrow> Inl ValueError)
           | _ \<Rightarrow> Inl ValueError))"

text \<open>\<open>if nshape == 1: dist_samples = dist_samples[:, N.newaxis]\<close>, then
  \<open>dist_samples.reshape((shape[0], -1))\<close>: one row per permutation.  With no rows
  the size \<open>-1\<close> cannot be inferred, and numpy raises a ValueError.\<close>

definition rows_of :: "ndarray \<Rightarrow> real list list" where
  "rows_of a = (case a of Vec vs \<Rightarrow> map (\<lambda>v. [v]) vs | Mat rs \<Rightarrow> rs)"

definition reshape_rows :: "ndarray \<Rightarrow> error + real list list" where
  "reshape_rows a =
     (let rows = rows_of a
      in if rows = [] then Inl ValueError else Inr rows)"

text \<open>Iterating over \<open>dist_samples_rs.T\<close>: the columns, each holding the samples of
  one output element.\<close>

definition columns :: "real list list \<Rightarrow> real list list" where
  "columns rows =
     (case rows of
        [] \<Rightarrow> []
      | r # _ \<Rightarrow> map (\<lambda>j. map (\<lambda>row. row ! j) rows) [0..<length r])"

subsection \<open>\<open>MCNullDist\<close>\<close>

text \<open>\<open>self._dist\<close> is a list that the code also tests against \<open>None\<close>, so it is
  an option here.  \<open>dist_samples\<close> is a state variable; the \<open>StateVariable\<close> class
  is not among the sources, and the assignment \<open>self.dist_samples = ...\<close> is modelled as
  the plain assignment it is written as.\<close>

record ('p, 'd) MCNullDist = NullDist +
  u_dist_class :: "('p, 'd) dist_class"
  u_dist :: "'d list option"
  permutations :: int
  dist_samples :: "ndarray option"

definition MCNullDist_init ::
  "('p, 'd) dist_class \<Rightarrow> int \<Rightarrow> string \<Rightarrow> error + ('p, 'd) MCNullDist" where
  "MCNullDist_init dc n t =
     (case NullDist_init t of
        Inl e \<Rightarrow> Inl e
      | Inr base \<Rightarrow>
          Inr \<lparr>tail = tail base, u_dist_class = dc, u_dist = Some [],
               permutations = n, dist_samples = None\<rparr>)"

text \<open>\<open>measure_args\<close>: \<open>[vdata, wdata]\<close> with a validation dataset, \<open>[wdata]\<close>
  without.\<close>

definition measure_args :: "'l Dataset option \<Rightarrow> 'l Dataset \<Rightarrow> 'l Dataset list" where
  "measure_args vdata wdata = (case vdata of Some v \<Rightarrow> [v, wdata] | None \<Rightarrow> [wdata])"

text \<open>The permutation loop \<open>for p in xrange(self.__permutations)\<close>: permute the
  labels of the working dataset with the draw of cycle \<open>p\<close>, and append the measure of
  the permuted dataset to \<open>dist_samples\<close>.\<close>

fun permute_cycles ::
  "(nat \<Rightarrow> 'l list \<Rightarrow> 'l list) \<Rightarrow> ('l Dataset list \<Rightarrow> arg) \<Rightarrow> 'l Dataset option \<Rightarrow>
   nat list \<Rightarrow> 'l Dataset \<Rightarrow> arg list \<Rightarrow> error + ('l Dataset \<times> arg list)" where
  "permute_cycles rng msr vdata [] wdata samples = Inr (wdata, samples)"
| "permute_cycles rng msr vdata (p # ps) wdata samples =
     (case permuteLabels True (rng p) wdata of
        Inl e \<Rightarrow> Inl e
      | Inr wdata' \<Rightarrow>
          permute_cycles rng msr vdata ps wdata'
            (samples @ [msr (measure_args vdata wdata')]))"

text \<open>The loop \<open>for samples in dist_samples_rs.T\<close>: fit the parameters, construct
  the distribution, append it.\<close>

fun fit_each :: "('p, 'd) dist_class \<Rightarrow> real list list \<Rightarrow> error + 'd list" where
  "fit_each dc [] = Inr []"
| "fit_each dc (samples # rest) =
     (case dc_fit dc samples of
        Inl e \<Rightarrow> Inl e
      | Inr params \<Rightarrow>
          (case dc_new dc params of
             Inl e \<Rightarrow> Inl e
           | Inr d \<Rightarrow>
               (case fit_each dc rest of
                  Inl e \<Rightarrow> Inl e
                | Inr ds \<Rightarrow> Inr (d # ds))))"

text \<open>\<open>fit\<close> returns the updated object and the working dataset it mutated.  An
  exception is modelled by its value only.\<close>

definition MCNullDist_fit ::
  "('p, 'd) MCNullDist \<Rightarrow> (nat \<Rightarrow> 'l list \<Rightarrow> 'l list) \<Rightarrow> ('l Dataset list \<Rightarrow> arg) \<Rightarrow>
   'l Dataset \<Rightarrow> 'l Dataset option \<Rightarrow> error + (('p, 'd) MCNullDist \<times> 'l Dataset)" where
  "MCNullDist_fit self rng msr wdata vdata =
     (case permute_cycles rng msr vdata [0..<nat (permutations self)] wdata [] of
        Inl e \<Rightarrow> Inl e
      | Inr (wdata1, samples) \<Rightarrow>
          (case permuteLabels False id wdata1 of
             Inl e \<Rightarrow> Inl e
           | Inr wdata2 \<Rightarrow>
               (case asarray samples of
                  Inl e \<Rightarrow> Inl e
                | Inr a \<Rightarrow>
                    (case reshape_rows a of
                       Inl e \<Rightarrow> Inl e
                     | Inr dist_samples_rs \<Rightarrow>
                         (case fit_each (u_dist_class self) (columns dist_samples_rs) of
                            Inl e \<Rightarrow> Inl e
                          | Inr ds \<Rightarrow>
                              Inr (self\<lparr>dist_samples := Some a, u_dist := Some ds\<rparr>,
                                   wdata2))))))"

text \<open>\<open>cdf\<close>: after \<open>x = N.asanyarray(x).reshape((-1,))\<close> the query is the flat
  sequence of its elements; the result is \<open>N.array(cdfs)\<close>.\<close>

definition MCNullDist_cdf :: "('p, 'd) MCNullDist \<Rightarrow> arg \<Rightarrow> error + real list" where
  "MCNullDist_cdf self x =
     (case u_dist self of
        None \<Rightarrow> Inl RuntimeError
      | Some ds \<Rightarrow>
          (let xs = elements x in
           if length ds \<noteq> length xs then Inl ValueError
           else Inr (map (\<lambda>(v, d). dc_cdf (u_dist_class self) d v) (zip xs ds))))"

definition MCNullDist_p :: "('p, 'd) MCNullDist \<Rightarrow> arg \<Rightarrow> error + arg" where
  "MCNullDist_p self x = NullDist_p self (\<lambda>xs. MCNullDist_cdf self (Array xs)) x"

definition MCNullDist_clean :: "('p, 'd) MCNullDist \<Rightarrow> ('p, 'd) MCNullDist" where
  "MCNullDist_clean self = self\<lparr>u_dist := Some []\<rparr>"

subsection \<open>\<open>matchDistribution\<close>\<close>

text \<open>What the function uses of \<open>scipy.stats\<close>, as parameters:
  \<^item> \<open>all_distributions\<close> is \<open>scipy.stats.distributions.__all__\<close>;
  \<^item> \<open>gen_fit d data\<close> is \<open>getattr(scipy.stats, d).fit(data)\<close>, the estimated
    parameters of the family named \<open>d\<close>, or the exception of either step;
  \<^item> \<open>gen_cdf d params\<close> is the pointwise function that
    \<open>dist_gen.cdf(x, *dist_params)\<close> applies to each element of \<open>x\<close>, or the
    exception it raises;
  \<^item> \<open>kstest data d params\<close> is \<open>kstest(data, d, args=dist_params)\<close>, the pair
    \<open>(D, p)\<close>, where \<open>None\<close> stands for nan.\<close>

record scipy_stats =
  all_distributions :: "string list"
  gen_fit :: "string \<Rightarrow> real list \<Rightarrow> error + real list"
  gen_cdf :: "string \<Rightarrow> real list \<Rightarrow> error + (real \<Rightarrow> real)"
  kstest :: "real list \<Rightarrow> string \<Rightarrow> real list \<Rightarrow> error + (real option \<times> real option)"

text \<open>The keyword arguments the function reads: \<open>p\<close> and \<open>tail\<close>.\<close>

record kwargs =
  kw_p :: "real option"
  kw_tail :: "string option"

text \<open>An entry of the result list: \<open>(D, d, dist_params)\<close>.\<close>

type_synonym scored = "real \<times> string \<times> real list"

text \<open>\<open>p_thr = kwargs.get('p', 0.05)\<close>.\<close>

definition kw_threshold :: "kwargs \<Rightarrow> real" where
  "kw_threshold kw = (case kw_p kw of None \<Rightarrow> 5 / 100 | Some v \<Rightarrow> v)"

text \<open>The preparation for \<open>test == 'p-roc'\<close>: the p-values of the data under their
  own non-parametric distribution, thresholded, and the number of positives.  With no
  positive the code formats its message with \<open>% p\<close> before \<open>p\<close> is assigned, so what
  is raised is an UnboundLocalError.\<close>

definition p_roc_setup :: "real list \<Rightarrow> string \<Rightarrow> real \<Rightarrow> error + (bool list \<times> nat)" where
  "p_roc_setup data tail0 p_thr =
     (case pvalue (Array data) (Nonparametric_cdf_array (Nonparametric_init data)) tail0 of
        Inl e \<Rightarrow> Inl e
      | Inr data_p \<Rightarrow>
          (let data_p_thr = map (\<lambda>v. v \<le> p_thr) (elements data_p);
               true_positives = length (filter (\<lambda>b. b) data_p_thr)
           in if true_positives = 0 then Inl UnboundLocalError
              else Inr (data_p_thr, true_positives)))"

text \<open>The block \<open>if test == 'p-roc': ...\<close> before the loop, with
  \<open>tail = kwargs.get('tail', 'any')\<close>; it leaves \<open>tail\<close>, \<open>data_p_thr\<close> and
  \<open>true_positives\<close> behind, and nothing for the other test.\<close>

definition prepare ::
  "real list \<Rightarrow> string \<Rightarrow> kwargs \<Rightarrow> error + (string \<times> bool list \<times> nat) option" where
  "prepare data test kw =
     (if test = ''p-roc'' then
        (let tail0 = (case kw_tail kw of None \<Rightarrow> ''any'' | Some t \<Rightarrow> t)
         in case p_roc_setup data tail0 (kw_threshold kw) of
              Inl e \<Rightarrow> Inl e
            | Inr (data_p_thr, true_positives) \<Rightarrow>
                Inr (Some (tail0, data_p_thr, true_positives)))
      else Inr None)"

text \<open>The body of the \<open>try\<close> block for one candidate \<open>d\<close>.  \<open>ctx\<close> holds
  \<open>tail\<close>, \<open>data_p_thr\<close> and \<open>true_positives\<close>, which exist only after the
  \<open>'p-roc'\<close> preparation.  \<open>N.sum(N.abs(data_p_thr - cdf_p_thr))\<close> counts the
  positions where the two boolean arrays differ.\<close>

definition try_candidate ::
  "scipy_stats \<Rightarrow> string \<Rightarrow> real list \<Rightarrow> real \<Rightarrow> (string \<times> bool list \<times> nat) option \<Rightarrow>
   string \<Rightarrow> error + (real option \<times> real option \<times> real list)" where
  "try_candidate sp test data p_thr ctx d =
     (case gen_fit sp d data of
        Inl e \<Rightarrow> Inl e
      | Inr dist_params \<Rightarrow>
          if test = ''p-roc'' then
            (case ctx of
               None \<Rightarrow> Inl UnboundLocalError
             | Some (tail0, data_p_thr, true_positives) \<Rightarrow>
                 (let cdf_func =
                        (\<lambda>x. case gen_cdf sp d dist_params of
                                Inl e \<Rightarrow> Inl e
                              | Inr F \<Rightarrow> Inr (map F x))
                  in case pvalue (Array data) cdf_func tail0 of
                       Inl e \<Rightarrow> Inl e
                     | Inr cdf_p \<Rightarrow>
                         (let cdf_p_thr = map (\<lambda>v. v \<le> p_thr) (elements cdf_p);
                              differing = length (filter (\<lambda>(a, b). a \<noteq> b)
                                                    (zip data_p_thr cdf_p_thr))
                          in Inr (Some (real differing * 1 / real true_positives),
                                  Some 1, dist_params))))
          else
            (case kstest sp data d dist_params of
               Inl e \<Rightarrow> Inl e
             | Inr (D, p) \<Rightarrow> Inr (D, p, dist_params)))"

text \<open>The loop over the candidates.  \<open>except: continue\<close> skips a candidate whose
  \<open>try\<close> block raised; a candidate is kept when \<open>p > p_thr and not N.isnan(D)\<close>
  (a comparison with nan is false).\<close>

fun match_loop ::
  "(string \<Rightarrow> error + (real option \<times> real option \<times> real list)) \<Rightarrow> real \<Rightarrow>
   string list \<Rightarrow> scored list \<Rightarrow> scored list" where
  "match_loop attempt p_thr [] results = results"
| "match_loop attempt p_thr (d # ds) results =
     (case attempt d of
        Inl e \<Rightarrow> match_loop attempt p_thr ds results
      | Inr (D, p, dist_params) \<Rightarrow>
          (case (D, p) of
             (Some Dv, Some pv) \<Rightarrow>
               if pv > p_thr then match_loop attempt p_thr ds (results @ [(Dv, d, dist_params)])
               else match_loop attempt p_thr ds results
           | _ \<Rightarrow> match_loop attempt p_thr ds results))"

text \<open>\<open>results.sort()\<close> orders the tuples lexicographically: by \<open>D\<close>, then by
  name, then by parameters.  Python's sort is stable, as \<^const>\<open>sort\<close> is.\<close>

definition matchDistribution ::
  "scipy_stats \<Rightarrow> real list \<Rightarrow> string \<Rightarrow> string list option \<Rightarrow> kwargs \<Rightarrow> error + scored list" where
  "matchDistribution sp data test distributions kw =
     (if test \<notin> set [''p-roc'', ''kstest''] then Inl ValueError
      else
        (let p_thr = kw_threshold kw
         in case prepare data test kw of
              Inl e \<Rightarrow> Inl e
            | Inr ctx \<Rightarrow>
                (let ds = (case distributions of
                             None \<Rightarrow> all_distributions sp
                           | Some l \<Rightarrow> l);
                     results = match_loop (try_candidate sp test data p_thr ctx) p_thr ds []
                 in Inr (sort results))))"

subsection \<open>Auxiliary notions for the statements\<close>

text \<open>The working dataset as it stands during cycle \<open>p\<close> of the permutation loop:
  the labels are the draw of that cycle, the originals are kept.\<close>

definition permuted :: "(nat \<Rightarrow> 'l list \<Rightarrow> 'l list) \<Rightarrow> 'l Dataset \<Rightarrow> nat \<Rightarrow> 'l Dataset" where
  "permuted rng wdata p =
     (let orig = (case origlabels wdata of None \<Rightarrow> labels wdata | Some l \<Rightarrow> l)
      in wdata\<lparr>labels := rng p orig, origlabels := Some orig\<rparr>)"


subsection \<open>Concrete inputs\<close>

text \<open>A dataset of three labels, a generator that rotates the labels, a measure with
  two outputs (the first label it sees and the number of datasets it was given), and a
  Monte-Carlo estimator with three permutations.\<close>

definition ex_wdata :: "nat Dataset" where
  "ex_wdata = \<lparr>labels = [0, 1, 2], origlabels = None\<rparr>"

definition ex_rng :: "nat \<Rightarrow> nat list \<Rightarrow> nat list" where
  "ex_rng p = rotate (Suc p)"

definition ex_measure :: "nat Dataset list \<Rightarrow> arg" where
  "ex_measure args =
     Array [case concat (map labels args) of [] \<Rightarrow> 0 | l # _ \<Rightarrow> real l,
            real (length args)]"

definition ex_mc :: "(real list list, Nonparametric) MCNullDist" where
  "ex_mc = \<lparr>tail = ''left'', u_dist_class = Nonparametric_class, u_dist = Some [],
            permutations = 3, dist_samples = None\<rparr>"

definition ex_fitted :: "(real list list, Nonparametric) MCNullDist" where
  "ex_fitted = \<lparr>tail = ''left'', u_dist_class = Nonparametric_class,
                u_dist = Some [Nonparametric [1, 2, 0], Nonparametric [1, 1, 1]],
                permutations = 3,
                dist_samples = Some (Mat [[1, 1], [2, 1], [0, 1]])\<rparr>"

text \<open>The same dataset in the permuted state: labels rearranged, originals kept.\<close>

definition ex_permuted :: "nat Dataset" where
  "ex_permuted = \<lparr>labels = [1, 2, 0], origlabels = Some [0, 1, 2]\<rparr>"

text \<open>A stand-in for \<open>scipy.stats\<close> with three family names, one of which cannot be
  fitted.\<close>

definition ex_stats :: scipy_stats where
  "ex_stats =
     \<lparr>all_distributions = [''norm'', ''bad'', ''expon''],
      gen_fit = (\<lambda>d data. if d = ''bad'' then Inl (LibraryError ''fit'') else Inr [0, 1]),
      gen_cdf = (\<lambda>d params. Inr (\<lambda>x. x)),
      kstest = (\<lambda>data d params.
                  if d = ''norm'' then Inr (Some (1 / 2), Some (1 / 2))
                  else Inr (Some (1 / 4), Some (1 / 2)))\<rparr>"

definition ex_kw :: kwargs where
  "ex_kw = \<lparr>kw_p = None, kw_tail = None\<rparr>"

section \<open>Properties\<close>

subsection \<open>Evaluation of the concrete inputs\<close>

lemma ex_init: "MCNullDist_init Nonparametric_class 3 ''left'' = Inr ex_mc"
  by (simp add: MCNullDist_init_def NullDist_init_def ex_mc_def)

lemma ex_cycles:
  "permute_cycles ex_rng ex_measure None [0..<nat (permutations ex_mc)] ex_wdata []
     = Inr (\<lparr>labels = [0, 1, 2], origlabels = Some [0, 1, 2]\<rparr>,
            [Array [1, 1], Array [2, 1], Array [0, 1]])"
  by (simp add: ex_mc_def ex_rng_def ex_measure_def ex_wdata_def permuteLabels_def
      measure_args_def upt_conv_Cons Let_def rotate_def rotate1_def eval_nat_numeral)

lemma ex_fit: "MCNullDist_fit ex_mc ex_rng ex_measure ex_wdata None = Inr (ex_fitted, ex_wdata)"
  unfolding MCNullDist_fit_def ex_cycles
  by (simp add: permuteLabels_def asarray_def reshape_rows_def
      rows_of_def columns_def Nonparametric_class_def Nonparametric_fit_def Nonparametric_new_def
      Nonparametric_init_def ex_mc_def ex_fitted_def ex_wdata_def upt_conv_Cons Let_def)

lemma ex_cycles_permuted:
  "permute_cycles ex_rng ex_measure None [0..<nat (permutations ex_mc)] ex_permuted []
     = Inr (\<lparr>labels = [0, 1, 2], origlabels = Some [0, 1, 2]\<rparr>,
            [Array [1, 1], Array [2, 1], Array [0, 1]])"
  by (simp add: ex_mc_def ex_rng_def ex_measure_def ex_permuted_def permuteLabels_def
      measure_args_def upt_conv_Cons Let_def rotate_def rotate1_def eval_nat_numeral)

lemma ex_fit_permuted:
  "MCNullDist_fit ex_mc ex_rng ex_measure ex_permuted None = Inr (ex_fitted, ex_wdata)"
  unfolding MCNullDist_fit_def ex_cycles_permuted
  by (simp add: permuteLabels_def asarray_def reshape_rows_def
      rows_of_def columns_def Nonparametric_class_def Nonparametric_fit_def Nonparametric_new_def
      Nonparametric_init_def ex_mc_def ex_fitted_def ex_wdata_def upt_conv_Cons Let_def)

lemma ex_match:
  "matchDistribution ex_stats [1, 2] ''kstest'' None ex_kw
     = Inr [(1 / 4, ''expon'', [0, 1]), (1 / 2, ''norm'', [0, 1])]"
  by (simp add: matchDistribution_def prepare_def kw_threshold_def try_candidate_def
      ex_stats_def ex_kw_def Let_def less_eq_prod_def)

subsection \<open>The empirical cdf\<close>

lemma sum_indicator_filter:
  "sum_list (map ((\<lambda>b. if b then (1::real) else 0) \<circ> P) s) = real (length (filter P s))"
  by (induction s) simp_all

lemma cdf_at_empirical: "cdf_at (Nonparametric_init s) x = spec_empirical_cdf s x"
  by (simp add: cdf_at_def Nonparametric_init_def mean_def spec_empirical_cdf_def
      sum_indicator_filter)

text \<open>
  Claim C2.  For a non-empty collection of stored samples \<open>s\<close>,
  \<open>Nonparametric(s).cdf(x)\<close> is the number of samples less than or equal to \<open>x\<close>
  over the number of samples, for a scalar \<open>x\<close>, and the same for each element of a
  (non-empty) array \<open>x\<close>.
\<close>

theorem Nonparametric_cdf_is_empirical:
  assumes "s \<noteq> []"
  shows "Nonparametric_cdf (Nonparametric_init s) (Scalar x) = Inr (Scalar (spec_empirical_cdf s x))
    \<and> (xs \<noteq> [] \<longrightarrow>
         Nonparametric_cdf (Nonparametric_init s) (Array xs)
           = Inr (Array (map (spec_empirical_cdf s) xs)))"
  by (simp add: Nonparametric_cdf_def cdf_at_empirical)

theorem Nonparametric_cdf_is_empirical_witness:
  "[1, 2, 3, 4] \<noteq> ([]::real list)
   \<and> Nonparametric_cdf (Nonparametric_init [1, 2, 3, 4]) (Scalar 2) = Inr (Scalar (1 / 2))
   \<and> Nonparametric_cdf (Nonparametric_init [1, 2, 3, 4]) (Array [0, 5 / 2, 7])
       = Inr (Array [0, 1 / 2, 1])"
  using Nonparametric_cdf_is_empirical [of "[1, 2, 3, 4]" 2 "[0, 5 / 2, 7]"]
  by (simp add: spec_empirical_cdf_def)

subsection \<open>The p-value translator\<close>

lemma tail_value_left: "tail_value ''left'' = (\<lambda>c. c)"
  by (simp add: tail_value_def fun_eq_iff)

lemma tail_value_right: "tail_value ''right'' = (\<lambda>c. 1 - c)"
  by (simp add: tail_value_def fun_eq_iff)

lemma tail_value_any: "tail_value ''any'' = (\<lambda>c. min c (1 - c))"
  by (simp add: tail_value_def fun_eq_iff min_def)

lemma pvalue_shape:
  assumes "cdf_func (elements x) = Inr cs" and "length cs = length (elements x)"
  shows "\<exists>r. pvalue x cdf_func t = Inr r \<and> isscalar r = isscalar x
             \<and> elements r = map (tail_value t) cs"
proof (cases x)
  case (Scalar v)
  with assms obtain c where cs: "cs = [c]"
    by (cases cs) simp_all
  with Scalar assms show ?thesis
    by (simp add: pvalue_def apply_tail_def)
next
  case (Array vs)
  with assms show ?thesis
    by (simp add: pvalue_def apply_tail_def)
qed

lemma ex_cdf_array:
  "Nonparametric_cdf_array (Nonparametric_init [1, 2, 3, 4]) [0, 5 / 2, 7] = Inr [0, 1 / 2, 1]"
  by (simp add: Nonparametric_cdf_array_def Nonparametric_cdf_def cdf_at_def mean_def
      Nonparametric_init_def)

text \<open>
  Claim C1.  \<open>NullDist.p\<close> reports the chosen tail.  Let \<open>cs\<close> be the cdf values
  that \<open>self.cdf\<close> returns for the elements of \<open>x\<close>, one per element.  Then \<open>p\<close>
  returns a value of the shape of \<open>x\<close> whose entries are \<open>cs\<close> for
  \<open>tail='left'\<close>, \<open>1 - cs\<close> for \<open>tail='right'\<close>, and
  \<open>min(cs, 1 - cs)\<close> for \<open>tail='any'\<close>, entry by entry.  (The minimum needs no
  bound on the cdf values.)
\<close>

theorem p_reports_chosen_tail:
  assumes "self_cdf (elements x) = Inr cs" and "length cs = length (elements x)"
  shows "\<exists>r. NullDist_p self self_cdf x = Inr r \<and> isscalar r = isscalar x \<and>
           (tail self = ''left'' \<longrightarrow> elements r = cs) \<and>
           (tail self = ''right'' \<longrightarrow> elements r = map (\<lambda>c. 1 - c) cs) \<and>
           (tail self = ''any'' \<longrightarrow> elements r = map (\<lambda>c. min c (1 - c)) cs)"
proof -
  from pvalue_shape [of self_cdf x cs "tail self"] assms obtain r where
    r: "pvalue x self_cdf (tail self) = Inr r" "isscalar r = isscalar x"
       "elements r = map (tail_value (tail self)) cs"
    by blast
  have "tail self = ''left'' \<longrightarrow> elements r = cs"
    using r(3) by (simp add: tail_value_left)
  moreover have "tail self = ''right'' \<longrightarrow> elements r = map (\<lambda>c. 1 - c) cs"
    using r(3) by (simp add: tail_value_right)
  moreover have "tail self = ''any'' \<longrightarrow> elements r = map (\<lambda>c. min c (1 - c)) cs"
    using r(3) by (simp add: tail_value_any)
  ultimately show ?thesis
    using r(1,2) by (simp add: NullDist_p_def)
qed

theorem p_reports_chosen_tail_witness:
  "Nonparametric_cdf_array (Nonparametric_init [1, 2, 3, 4]) (elements (Array [0, 5 / 2, 7]))
      = Inr [0, 1 / 2, 1]
   \<and> length [0, 1 / 2, 1 :: real] = length (elements (Array [0, 5 / 2, 7]))
   \<and> (\<exists>r. NullDist_p \<lparr>tail = ''any''\<rparr>
             (Nonparametric_cdf_array (Nonparametric_init [1, 2, 3, 4])) (Array [0, 5 / 2, 7])
             = Inr r
          \<and> isscalar r = False \<and> elements r = [0, 1 / 2, 0])"
proof -
  have h1: "Nonparametric_cdf_array (Nonparametric_init [1, 2, 3, 4])
              (elements (Array [0, 5 / 2, 7])) = Inr [0, 1 / 2, 1]"
    by (simp add: ex_cdf_array)
  have h2: "length [0, 1 / 2, 1 :: real] = length (elements (Array [0, 5 / 2, 7]))"
    by simp
  from p_reports_chosen_tail
         [of "Nonparametric_cdf_array (Nonparametric_init [1, 2, 3, 4])"
             "Array [0, 5 / 2, 7]" "[0, 1 / 2, 1]" "\<lparr>tail = ''any''\<rparr>"] h1 h2
  show ?thesis by simp
qed

text \<open>
  The shape handling of \<open>p\<close>.  Whenever \<open>p\<close> returns, it returns a scalar for a
  scalar \<open>x\<close> and an array for an array \<open>x\<close>; an exception of \<open>self.cdf\<close> is the
  outcome of \<open>p\<close>; and when \<open>self.cdf\<close> returns one value per element of \<open>x\<close>,
  \<open>p\<close> returns as many entries as \<open>x\<close> has, entry \<open>i\<close> being the tail-adjusted
  cdf value of element \<open>i\<close>.
\<close>

lemma p_returns_same_kind:
  "NullDist_p self self_cdf x = Inr r \<Longrightarrow> isscalar r = isscalar x"
  by (cases x) (auto simp: NullDist_p_def pvalue_def Let_def split: sum.splits list.splits)

theorem p_preserves_shape:
  "(\<forall>e. self_cdf (elements x) = Inl e \<longrightarrow> NullDist_p self self_cdf x = Inl e) \<and>
   (\<forall>cs. self_cdf (elements x) = Inr cs \<and> length cs = length (elements x) \<longrightarrow>
      (\<exists>r. NullDist_p self self_cdf x = Inr r \<and> isscalar r = isscalar x \<and>
            length (elements r) = length (elements x) \<and>
            (\<forall>i < length (elements x). elements r ! i = tail_value (tail self) (cs ! i))))"
proof -
  have err: "NullDist_p self self_cdf x = Inl e" if "self_cdf (elements x) = Inl e" for e
    using that by (simp add: NullDist_p_def pvalue_def)
  have ok: "\<exists>r. NullDist_p self self_cdf x = Inr r \<and> isscalar r = isscalar x \<and>
            length (elements r) = length (elements x) \<and>
            (\<forall>i < length (elements x). elements r ! i = tail_value (tail self) (cs ! i))"
    if "self_cdf (elements x) = Inr cs" "length cs = length (elements x)" for cs
  proof -
    from pvalue_shape [of self_cdf x cs "tail self"] that obtain r where
      r: "pvalue x self_cdf (tail self) = Inr r" "isscalar r = isscalar x"
         "elements r = map (tail_value (tail self)) cs"
      by blast
    then show ?thesis
      using that(2) by (simp add: NullDist_p_def)
  qed
  from err ok show ?thesis
    by blast
qed

theorem p_preserves_shape_witness:
  "(\<exists>r. NullDist_p \<lparr>tail = ''right''\<rparr>
          (Nonparametric_cdf_array (Nonparametric_init [1, 2, 3, 4])) (Array [0, 5 / 2, 7])
          = Inr r
       \<and> isscalar r = False \<and> length (elements r) = 3 \<and> elements r ! 1 = 1 / 2)
   \<and> MCNullDist_p ex_fitted (Scalar 1) = Inl ValueError"
proof -
  let ?cdf = "Nonparametric_cdf_array (Nonparametric_init [1, 2, 3, 4])"
  let ?mc = "\<lambda>xs. MCNullDist_cdf ex_fitted (Array xs)"
  have h: "?cdf (elements (Array [0, 5 / 2, 7])) = Inr [0, 1 / 2, 1]
           \<and> length [0, 1 / 2, 1 :: real] = length (elements (Array [0, 5 / 2, 7]))"
    by (simp add: ex_cdf_array)
  have e: "?mc (elements (Scalar 1)) = Inl ValueError"
    by (simp add: MCNullDist_cdf_def ex_fitted_def)
  from p_preserves_shape [of ?cdf "Array [0, 5 / 2, 7]" "\<lparr>tail = ''right''\<rparr>"] h
  have "\<exists>r. NullDist_p \<lparr>tail = ''right''\<rparr> ?cdf (Array [0, 5 / 2, 7]) = Inr r
          \<and> isscalar r = False \<and> length (elements r) = 3 \<and> elements r ! 1 = 1 / 2"
    by (auto simp: tail_value_def)
  moreover from p_preserves_shape [of ?mc "Scalar 1" ex_fitted] e
  have "MCNullDist_p ex_fitted (Scalar 1) = Inl ValueError"
    by (simp add: MCNullDist_p_def)
  ultimately show ?thesis
    by blast
qed

text \<open>
  Claim C10.  \<open>NullDist.p\<close> is to keep the shape of its input, a scalar for every
  scalar \<open>x\<close>; its docstring admits a scalar \<open>x\<close> also when the distribution was
  estimated featurewise.  On the estimator fitted to the measure with two outputs the
  scalar query does not return: \<open>_pvalue\<close> hands \<open>self.cdf\<close> the one-element list
  \<open>[x]\<close>, the estimator holds two distributions, and the length check of
  \<open>MCNullDist.cdf\<close> raises a ValueError.
\<close>

theorem p_scalar_on_featurewise_raises:
  "MCNullDist_fit ex_mc ex_rng ex_measure ex_wdata None = Inr (ex_fitted, ex_wdata)
   \<and> u_dist ex_fitted = Some [Nonparametric [1, 2, 0], Nonparametric [1, 1, 1]]
   \<and> MCNullDist_cdf ex_fitted (Array [1]) = Inl ValueError
   \<and> MCNullDist_p ex_fitted (Scalar 1) = Inl ValueError"
  by (simp add: ex_fit MCNullDist_p_def NullDist_p_def pvalue_def MCNullDist_cdf_def
      ex_fitted_def)

subsection \<open>Construction and the unfit estimator\<close>

text \<open>
  Claim C6.  Constructing a \<open>NullDist\<close>, an \<open>MCNullDist\<close> or a \<open>FixedNullDist\<close>
  raises a ValueError exactly when the tail argument is none of \<open>'left'\<close>,
  \<open>'right'\<close>, \<open>'any'\<close>, and succeeds (keeping the tail) exactly for those three.
\<close>

theorem tail_selection_checked:
  "(NullDist_init t = Inl ValueError \<longleftrightarrow> t \<notin> {''left'', ''right'', ''any''}) \<and>
   (MCNullDist_init dc n t = Inl ValueError \<longleftrightarrow> t \<notin> {''left'', ''right'', ''any''}) \<and>
   (FixedNullDist_init d t = Inl ValueError \<longleftrightarrow> t \<notin> {''left'', ''right'', ''any''}) \<and>
   ((\<exists>self. NullDist_init t = Inr self \<and> tail self = t) \<longleftrightarrow> t \<in> {''left'', ''right'', ''any''}) \<and>
   ((\<exists>self. MCNullDist_init dc n t = Inr self \<and> tail self = t) \<longleftrightarrow> t \<in> {''left'', ''right'', ''any''}) \<and>
   ((\<exists>self. FixedNullDist_init d t = Inr self \<and> tail self = t) \<longleftrightarrow> t \<in> {''left'', ''right'', ''any''})"
  by (auto simp: NullDist_init_def MCNullDist_init_def FixedNullDist_init_def)

theorem tail_selection_checked_witness:
  "NullDist_init ''both'' = Inl ValueError
   \<and> MCNullDist_init Nonparametric_class 3 ''both'' = Inl ValueError
   \<and> FixedNullDist_init (Nonparametric_cdf_array (Nonparametric_init [1, 2])) ''both''
        = Inl ValueError
   \<and> (\<exists>self. NullDist_init ''any'' = Inr self \<and> tail self = ''any'')
   \<and> (\<exists>self. MCNullDist_init Nonparametric_class 3 ''right'' = Inr self
               \<and> tail self = ''right'')
   \<and> (\<exists>self. FixedNullDist_init (Nonparametric_cdf_array (Nonparametric_init [1, 2])) ''left''
                 = Inr self \<and> tail self = ''left'')"
  using tail_selection_checked [of "''both''" Nonparametric_class 3
          "Nonparametric_cdf_array (Nonparametric_init [1, 2])"]
        tail_selection_checked [of "''any''" Nonparametric_class 3
          "Nonparametric_cdf_array (Nonparametric_init [1, 2])"]
        tail_selection_checked [of "''right''" Nonparametric_class 3
          "Nonparametric_cdf_array (Nonparametric_init [1, 2])"]
        tail_selection_checked [of "''left''" Nonparametric_class 3
          "Nonparametric_cdf_array (Nonparametric_init [1, 2])"]
  by simp

text \<open>
  Claim C4.  On an \<open>MCNullDist\<close> as the constructor leaves it (never fitted),
  \<open>cdf(x)\<close> raises a ValueError for every scalar and every non-empty array \<open>x\<close>:
  \<open>self._dist\<close> is the empty list, not \<open>None\<close>, so the length check fails.
\<close>

theorem unfit_cdf_raises:
  assumes "MCNullDist_init dc n t = Inr self" and "elements x \<noteq> []"
  shows "MCNullDist_cdf self x = Inl ValueError"
  using assms
  by (auto simp: MCNullDist_init_def MCNullDist_cdf_def split: sum.splits)

theorem unfit_cdf_raises_witness:
  "MCNullDist_init Nonparametric_class 3 ''left'' = Inr ex_mc
   \<and> elements (Scalar 0) \<noteq> [] \<and> elements (Array [1, 2]) \<noteq> []
   \<and> MCNullDist_cdf ex_mc (Scalar 0) = Inl ValueError
   \<and> MCNullDist_cdf ex_mc (Array [1, 2]) = Inl ValueError"
  using unfit_cdf_raises [OF ex_init, of "Scalar 0"] unfit_cdf_raises [OF ex_init, of "Array [1, 2]"]
  by (simp add: ex_init)

subsection \<open>Fitting\<close>


lemma permute_True:
  "permuteLabels True draw ds =
     Inr (ds\<lparr>labels := draw (case origlabels ds of None \<Rightarrow> labels ds | Some l \<Rightarrow> l),
            origlabels := Some (case origlabels ds of None \<Rightarrow> labels ds | Some l \<Rightarrow> l)\<rparr>)"
  by (simp add: permuteLabels_def Let_def)

lemma permuted_again: "permuted rng (permuted rng wdata p) q = permuted rng wdata q"
  by (simp add: permuted_def Let_def)

lemma permute_cycles_result:
  "permute_cycles rng msr vdata ps wdata acc =
     Inr (if ps = [] then wdata else permuted rng wdata (last ps),
          acc @ map (\<lambda>p. msr (measure_args vdata (permuted rng wdata p))) ps)"
proof (induction ps arbitrary: wdata acc)
  case Nil
  show ?case by simp
next
  case (Cons p ps)
  have step: "permuteLabels True (rng p) wdata = Inr (permuted rng wdata p)"
    by (simp add: permute_True permuted_def Let_def)
  show ?case
    by (simp add: step Cons.IH permuted_again)
qed

lemma restore_permuted:
  "permuteLabels False draw (permuted rng wdata p) =
     Inr (wdata\<lparr>labels := (case origlabels wdata of None \<Rightarrow> labels wdata | Some l \<Rightarrow> l),
               origlabels := None\<rparr>)"
  by (simp add: permuteLabels_def permuted_def Let_def)






lemma fit_result:
  assumes "MCNullDist_fit self rng msr wdata vdata = Inr (self', wdata')"
  shows "\<exists>wdata1 samples a rows ds.
           permute_cycles rng msr vdata [0..<nat (permutations self)] wdata [] = Inr (wdata1, samples)
         \<and> permuteLabels False id wdata1 = Inr wdata'
         \<and> asarray samples = Inr a \<and> reshape_rows a = Inr rows
         \<and> fit_each (u_dist_class self) (columns rows) = Inr ds
         \<and> self' = self\<lparr>dist_samples := Some a, u_dist := Some ds\<rparr>"
  using assms
  by (auto simp: MCNullDist_fit_def split: sum.splits prod.splits)



text \<open>
  Claim C9.  When \<open>fit\<close> returns, the last thing done to the working dataset is the
  restoring call \<open>permuteLabels(False)\<close> after the loop, and the dataset is left with
  its original labels and not in the permuted state.  These are the labels it had
  before the call whenever it was not already permuted on entry, and then the whole
  dataset is as \<open>fit\<close> found it.
\<close>

theorem fit_restores_labels:
  assumes "MCNullDist_fit self rng msr wdata vdata = Inr (self', wdata')"
  shows "labels wdata' = (case origlabels wdata of None \<Rightarrow> labels wdata | Some l \<Rightarrow> l)
       \<and> origlabels wdata' = None
       \<and> (origlabels wdata = None \<longrightarrow> labels wdata' = labels wdata \<and> wdata' = wdata)
       \<and> (\<exists>wdata1 samples.
             permute_cycles rng msr vdata [0..<nat (permutations self)] wdata []
               = Inr (wdata1, samples)
           \<and> permuteLabels False id wdata1 = Inr wdata')"
proof -
  let ?ps = "[0..<nat (permutations self)]"
  let ?orig = "case origlabels wdata of None \<Rightarrow> labels wdata | Some l \<Rightarrow> l"
  from fit_result [OF assms] obtain wdata1 samples where
    c: "permute_cycles rng msr vdata ?ps wdata [] = Inr (wdata1, samples)"
    and r: "permuteLabels False id wdata1 = Inr wdata'"
    by blast
  have w1: "wdata1 = (if ?ps = [] then wdata else permuted rng wdata (last ?ps))"
    using c by (simp add: permute_cycles_result)
  have w': "wdata' = wdata\<lparr>labels := ?orig, origlabels := None\<rparr>"
  proof (cases "?ps = []")
    case True
    with w1 have "wdata1 = wdata" by simp
    with r show ?thesis
      by (auto simp: permuteLabels_def split: option.splits)
  next
    case False
    with w1 have "wdata1 = permuted rng wdata (last ?ps)" by simp
    with r show ?thesis
      by (simp add: restore_permuted)
  qed
  have same: "wdata' = wdata" if "origlabels wdata = None"
  proof -
    have "wdata\<lparr>labels := labels wdata, origlabels := None\<rparr> = wdata"
      using that by (cases wdata) simp
    with w' that show ?thesis by simp
  qed
  have "labels wdata' = ?orig" "origlabels wdata' = None"
    using w' by simp_all
  with same c r show ?thesis by blast
qed

theorem fit_restores_labels_witness:
  "MCNullDist_fit ex_mc ex_rng ex_measure ex_wdata None = Inr (ex_fitted, ex_wdata)
   \<and> origlabels ex_wdata = None
   \<and> labels ex_wdata = [0, 1, 2]
   \<and> MCNullDist_fit ex_mc ex_rng ex_measure ex_permuted None = Inr (ex_fitted, ex_wdata)
   \<and> origlabels ex_permuted = Some [0, 1, 2]
   \<and> (\<exists>wdata1 samples.
         permute_cycles ex_rng ex_measure None [0..<nat (permutations ex_mc)] ex_wdata []
           = Inr (wdata1, samples)
       \<and> labels wdata1 = [0, 1, 2] \<and> origlabels wdata1 = Some [0, 1, 2]
       \<and> permuteLabels False id wdata1 = Inr ex_wdata)"
proof -
  have h: "origlabels ex_wdata = None" "labels ex_wdata = [0, 1, 2]"
    by (simp_all add: ex_wdata_def)
  have hp: "origlabels ex_permuted = Some [0, 1, 2]"
    by (simp add: ex_permuted_def)
  from fit_restores_labels [OF ex_fit] obtain wdata1 samples where
    c: "permute_cycles ex_rng ex_measure None [0..<nat (permutations ex_mc)] ex_wdata []
          = Inr (wdata1, samples)"
    and r: "permuteLabels False id wdata1 = Inr ex_wdata"
    by blast
  from c [unfolded ex_cycles]
  have "wdata1 = \<lparr>labels = [0, 1, 2], origlabels = Some [0, 1, 2]\<rparr>"
    by simp
  then have "labels wdata1 = [0, 1, 2]" "origlabels wdata1 = Some [0, 1, 2]"
    by simp_all
  with c r have "\<exists>wdata1 samples.
         permute_cycles ex_rng ex_measure None [0..<nat (permutations ex_mc)] ex_wdata []
           = Inr (wdata1, samples)
       \<and> labels wdata1 = [0, 1, 2] \<and> origlabels wdata1 = Some [0, 1, 2]
       \<and> permuteLabels False id wdata1 = Inr ex_wdata"
    by blast
  with ex_fit ex_fit_permuted h hp show ?thesis
    by simp
qed

text \<open>
  On a dataset handed over in the permuted state, \<open>fit\<close> returns and the labels
  afterwards are the originals, not the labels before the call.
\<close>

theorem fit_prepermuted_counterexample:
  "MCNullDist_fit ex_mc ex_rng ex_measure ex_permuted None = Inr (ex_fitted, ex_wdata)
   \<and> labels ex_permuted = [1, 2, 0]
   \<and> labels ex_wdata = [0, 1, 2]
   \<and> labels ex_wdata \<noteq> labels ex_permuted"
proof -
  have "labels ex_permuted = [1, 2, 0]" "labels ex_wdata = [0, 1, 2]"
    by (simp_all add: ex_permuted_def ex_wdata_def)
  then show ?thesis
    by (simp add: ex_fit_permuted)
qed

subsection \<open>Querying a fitted estimator\<close>

text \<open>
  Claim C5.  After \<open>fit\<close> has returned, leaving \<open>k\<close> distributions in
  \<open>self._dist\<close>, \<open>cdf(x)\<close> raises a ValueError if and only if the number of
  elements of \<open>x\<close> (one for a scalar) differs from \<open>k\<close>; when the numbers agree it
  returns \<open>k\<close> values, value \<open>i\<close> being the cdf of distribution \<open>i\<close> at element
  \<open>i\<close>.
\<close>

theorem cdf_length_check:
  assumes "MCNullDist_fit self rng msr wdata vdata = Inr (self', wdata')"
  shows "\<exists>ds. u_dist self' = Some ds
       \<and> (MCNullDist_cdf self' x = Inl ValueError \<longleftrightarrow> length (elements x) \<noteq> length ds)
       \<and> (length (elements x) = length ds \<longrightarrow>
            (\<exists>cs. MCNullDist_cdf self' x = Inr cs \<and> length cs = length ds
                \<and> (\<forall>i < length ds.
                      cs ! i = dc_cdf (u_dist_class self') (ds ! i) (elements x ! i))))"
proof -
  from fit_result [OF assms] obtain a ds where
    s: "self' = self\<lparr>dist_samples := Some a, u_dist := Some ds\<rparr>"
    by blast
  then have u: "u_dist self' = Some ds" by simp
  have "MCNullDist_cdf self' x = Inl ValueError \<longleftrightarrow> length (elements x) \<noteq> length ds"
    using u by (auto simp: MCNullDist_cdf_def Let_def)
  moreover have "\<exists>cs. MCNullDist_cdf self' x = Inr cs \<and> length cs = length ds
                \<and> (\<forall>i < length ds.
                      cs ! i = dc_cdf (u_dist_class self') (ds ! i) (elements x ! i))"
    if "length (elements x) = length ds"
    using u that by (simp add: MCNullDist_cdf_def Let_def)
  ultimately show ?thesis
    using u by blast
qed

theorem cdf_length_check_witness:
  "MCNullDist_fit ex_mc ex_rng ex_measure ex_wdata None = Inr (ex_fitted, ex_wdata)
   \<and> u_dist ex_fitted = Some [Nonparametric [1, 2, 0], Nonparametric [1, 1, 1]]
   \<and> MCNullDist_cdf ex_fitted (Scalar 1) = Inl ValueError
   \<and> MCNullDist_cdf ex_fitted (Array [1, 1, 1]) = Inl ValueError
   \<and> MCNullDist_cdf ex_fitted (Array [1, 1]) = Inr [2 / 3, 1]"
proof -
  have u: "u_dist ex_fitted = Some [Nonparametric [1, 2, 0], Nonparametric [1, 1, 1]]"
    by (simp add: ex_fitted_def)
  have c: "dc_cdf (u_dist_class ex_fitted) = cdf_at"
    by (simp add: ex_fitted_def Nonparametric_class_def)
  from cdf_length_check [OF ex_fit, of "Scalar 1"] u
  have a: "MCNullDist_cdf ex_fitted (Scalar 1) = Inl ValueError"
    by simp
  from cdf_length_check [OF ex_fit, of "Array [1, 1, 1]"] u
  have b: "MCNullDist_cdf ex_fitted (Array [1, 1, 1]) = Inl ValueError"
    by simp
  from cdf_length_check [OF ex_fit, of "Array [1, 1]"] u
  obtain cs where cs: "MCNullDist_cdf ex_fitted (Array [1, 1]) = Inr cs" "length cs = 2"
    "\<forall>i < 2. cs ! i = cdf_at ([Nonparametric [1, 2, 0], Nonparametric [1, 1, 1]] ! i) ([1, 1] ! i)"
    by (auto simp: c)
  from cs(3) have "cs ! 0 = 2 / 3" "cs ! 1 = 1"
    by (simp_all add: cdf_at_def mean_def)
  with cs(2) have "cs = [2 / 3, 1]"
    by (cases cs; cases "tl cs") auto
  with cs(1) a b u ex_fit show ?thesis
    by simp
qed

subsection \<open>Distribution search\<close>


lemma sorted_map_fst:
  fixes xs :: "('a::linorder \<times> 'b::linorder) list"
  shows "sorted xs \<Longrightarrow> sorted (map fst xs)"
  by (induction xs) (auto simp: less_eq_prod_def)

text \<open>
  Claim C8.  The list \<open>matchDistribution\<close> returns is in ascending order of the
  goodness-of-fit distance \<open>D\<close>, the first component of its entries.
\<close>

theorem matchDistribution_sorted:
  assumes "matchDistribution sp data test distributions kw = Inr results"
  shows "sorted (map fst results)"
proof -
  from assms obtain rs where "results = sort rs"
    by (auto simp: matchDistribution_def Let_def split: if_splits sum.splits)
  then show ?thesis
    by (simp add: sorted_map_fst)
qed

lemma match_loop_append:
  "match_loop attempt p_thr (ds1 @ ds2) acc = match_loop attempt p_thr ds2 (match_loop attempt p_thr ds1 acc)"
proof (induction ds1 arbitrary: acc)
  case Nil
  show ?case by simp
next
  case (Cons d ds1)
  show ?case
  proof (cases "attempt d")
    case (Inl e)
    then show ?thesis using Cons.IH by simp
  next
    case (Inr v)
    obtain D p params where v: "v = (D, p, params)" by (cases v)
    show ?thesis
      using Inr v Cons.IH by (cases D; cases p) simp_all
  qed
qed

lemma match_loop_set:
  "set (match_loop attempt p_thr ds acc) =
     set acc \<union> {(Dv, d', params).
                  d' \<in> set ds \<and> (\<exists>pv. attempt d' = Inr (Some Dv, Some pv, params) \<and> p_thr < pv)}"
proof (induction ds arbitrary: acc)
  case Nil
  show ?case by simp
next
  case (Cons d ds)
  let ?K = "\<lambda>l. {(Dv, d', params).
                  d' \<in> set l \<and> (\<exists>pv. attempt d' = Inr (Some Dv, Some pv, params) \<and> p_thr < pv)}"
  have split: "?K (d # ds) = ?K [d] \<union> ?K ds"
    by auto
  show ?case
  proof (cases "\<exists>Dv pv params. attempt d = Inr (Some Dv, Some pv, params) \<and> p_thr < pv")
    case True
    then obtain Dv pv params where a: "attempt d = Inr (Some Dv, Some pv, params)" "p_thr < pv"
      by blast
    then have "?K [d] = {(Dv, d, params)}"
      by auto
    moreover have "match_loop attempt p_thr (d # ds) acc
                     = match_loop attempt p_thr ds (acc @ [(Dv, d, params)])"
      using a by simp
    ultimately show ?thesis
      using Cons.IH [of "acc @ [(Dv, d, params)]"] split by auto
  next
    case False
    then have "?K [d] = {}"
      by auto
    moreover have "match_loop attempt p_thr (d # ds) acc = match_loop attempt p_thr ds acc"
    proof (cases "attempt d")
      case (Inl e)
      then show ?thesis by simp
    next
      case (Inr v)
      obtain D p params where v: "v = (D, p, params)" by (cases v)
      with Inr False show ?thesis
        by (cases D; cases p) auto
    qed
    ultimately show ?thesis
      using Cons.IH [of acc] split by auto
  qed
qed

text \<open>
  Claim C7.  Let the preparation before the loop succeed for a known test, and let the
  \<open>try\<close> block raise for the candidate \<open>d\<close> (in fitting the parameters or in
  the test).  Then \<open>matchDistribution\<close> returns a list, the exception of \<open>d\<close> does
  not reach the caller, the list is the one returned without \<open>d\<close> among the
  candidates, no entry carries the name \<open>d\<close>, and the entries are exactly those of
  the remaining candidates, before and after \<open>d\<close>, that pass the test.
\<close>

theorem failing_candidate_skipped:
  assumes "test \<in> set [''p-roc'', ''kstest'']"
    and "prepare data test kw = Inr ctx"
    and "try_candidate sp test data (kw_threshold kw) ctx d = Inl e"
  shows "\<exists>results.
           matchDistribution sp data test (Some (ds1 @ d # ds2)) kw = Inr results
         \<and> matchDistribution sp data test (Some (ds1 @ ds2)) kw = Inr results
         \<and> d \<notin> set (map (\<lambda>r. fst (snd r)) results)
         \<and> set results =
             {(Dv, d', params).
                d' \<in> set (ds1 @ ds2) \<and>
                (\<exists>pv. try_candidate sp test data (kw_threshold kw) ctx d'
                         = Inr (Some Dv, Some pv, params) \<and> kw_threshold kw < pv)}"
proof -
  let ?attempt = "try_candidate sp test data (kw_threshold kw) ctx"
  let ?thr = "kw_threshold kw"
  let ?res = "sort (match_loop ?attempt ?thr (ds1 @ ds2) [])"
  have skip: "match_loop ?attempt ?thr (d # ds2) acc = match_loop ?attempt ?thr ds2 acc" for acc
    using assms(3) by simp
  have eq: "match_loop ?attempt ?thr (ds1 @ d # ds2) [] = match_loop ?attempt ?thr (ds1 @ ds2) []"
    by (simp only: match_loop_append skip)
  have run: "matchDistribution sp data test (Some l) kw
               = Inr (sort (match_loop ?attempt ?thr l []))" for l
  proof -
    have "matchDistribution sp data test (Some l) kw
            = (if test \<notin> set [''p-roc'', ''kstest''] then Inl ValueError
               else Inr (sort (match_loop ?attempt ?thr l [])))"
      by (simp only: matchDistribution_def Let_def assms(2) sum.case option.case)
    with assms(1) show ?thesis by simp
  qed
  have with_d: "matchDistribution sp data test (Some (ds1 @ d # ds2)) kw = Inr ?res"
    using run [of "ds1 @ d # ds2"] eq by simp
  have without_d: "matchDistribution sp data test (Some (ds1 @ ds2)) kw = Inr ?res"
    using run [of "ds1 @ ds2"] by simp
  have content: "set ?res =
             {(Dv, d', params).
                d' \<in> set (ds1 @ ds2) \<and>
                (\<exists>pv. ?attempt d' = Inr (Some Dv, Some pv, params) \<and> ?thr < pv)}"
    by (simp add: match_loop_set)
  have no: "d \<notin> set (map (\<lambda>r. fst (snd r)) ?res)"
  proof
    assume "d \<in> set (map (\<lambda>r. fst (snd r)) ?res)"
    then obtain r where "r \<in> set ?res" "fst (snd r) = d" by auto
    with content assms(3) show False by auto
  qed
  from with_d without_d no content show ?thesis
    by blast
qed

theorem matchDistribution_sorted_witness:
  "matchDistribution ex_stats [1, 2] ''kstest'' None ex_kw
     = Inr [(1 / 4, ''expon'', [0, 1]), (1 / 2, ''norm'', [0, 1])]
   \<and> sorted (map fst [(1 / 4 :: real, ''expon'', [0, 1 :: real]), (1 / 2, ''norm'', [0, 1])])"
  using matchDistribution_sorted [OF ex_match] ex_match
  by simp

theorem failing_candidate_skipped_witness:
  "''kstest'' \<in> set [''p-roc'', ''kstest'']
   \<and> prepare [1, 2] ''kstest'' ex_kw = Inr None
   \<and> try_candidate ex_stats ''kstest'' [1, 2] (kw_threshold ex_kw) None ''bad''
       = Inl (LibraryError ''fit'')
   \<and> matchDistribution ex_stats [1, 2] ''kstest'' (Some [''norm'', ''bad'', ''expon'']) ex_kw
       = Inr [(1 / 4, ''expon'', [0, 1]), (1 / 2, ''norm'', [0, 1])]
   \<and> matchDistribution ex_stats [1, 2] ''kstest'' (Some [''norm'', ''expon'']) ex_kw
       = Inr [(1 / 4, ''expon'', [0, 1]), (1 / 2, ''norm'', [0, 1])]"
proof -
  have h0: "''kstest'' \<in> set [''p-roc'', ''kstest'']"
    by simp
  have h1: "prepare [1, 2] ''kstest'' ex_kw = Inr None"
    by (simp add: prepare_def)
  have h2: "try_candidate ex_stats ''kstest'' [1, 2] (kw_threshold ex_kw) None ''bad''
              = Inl (LibraryError ''fit'')"
    by (simp add: try_candidate_def ex_stats_def)
  have without: "matchDistribution ex_stats [1, 2] ''kstest'' (Some [''norm'', ''expon'']) ex_kw
       = Inr [(1 / 4, ''expon'', [0, 1]), (1 / 2, ''norm'', [0, 1])]"
    by (simp add: matchDistribution_def prepare_def kw_threshold_def try_candidate_def
        ex_stats_def ex_kw_def Let_def less_eq_prod_def)
  from failing_candidate_skipped [OF h0 h1 h2, of "[''norm'']" "[''expon'']"]
  obtain results where
    "matchDistribution ex_stats [1, 2] ''kstest'' (Some ([''norm''] @ ''bad'' # [''expon''])) ex_kw
       = Inr results"
    "matchDistribution ex_stats [1, 2] ''kstest'' (Some ([''norm''] @ [''expon''])) ex_kw
       = Inr results"
    by blast
  with without have
    "matchDistribution ex_stats [1, 2] ''kstest'' (Some [''norm'', ''bad'', ''expon'']) ex_kw
       = Inr [(1 / 4, ''expon'', [0, 1]), (1 / 2, ''norm'', [0, 1])]"
    by simp
  with h0 h1 h2 without show ?thesis
    by simp
qed

end
